theory Spec2Isabelle
  imports Complex_Main
begin

section \<open>Values\<close>

text \<open>
  The engine receives a JSON-decoded value (spec, section 6).  A decoded value is a tree:
  no two positions of it share an object, it holds no \<^verbatim>\<open>undefined\<close> and no function.
  An object is the table of its own properties in enumeration order, with distinct keys.
  A number is a rational: every finite double is one, and the equality and the order of
  doubles are those of the rationals.  Strings are lists of 8-bit code units.
\<close>

datatype json =
    JNull
  | JBool bool
  | JNum rat
  | JStr string
  | JArr "json list"
  | JObj "(string \<times> json) list"

text \<open>
  A property read can leave the request: it yields \<^verbatim>\<open>undefined\<close>, or a member that the
  built-in prototypes of the JavaScript host supply (a function such as
  \<^verbatim>\<open>Object.prototype.toString\<close>).  Host objects are opaque.
\<close>

type_synonym hostobj = nat

datatype jsval = Undefined | Json json | Host hostobj

datatype js_error = TypeError

datatype number = NaN | NegInf | Fin rat | PosInf

text \<open>\<^verbatim>\<open>type Condition = keyof typeof conditions\<close>\<close>

datatype Condition = eq | neq | gt | gte | contains

text \<open>
  What the code takes from the JavaScript host and does not define itself:
  \<^item> \<open>inherited H v k\<close>: the read of \<open>k\<close> on \<open>v\<close> when \<open>k\<close> is not an own property
    of \<open>v\<close> (the prototype chain), and every read on a host object;
  \<^item> \<open>string_to_number H s\<close>: the numeric value of a string (\<^verbatim>\<open>ToNumber\<close>), which rounds
    to a double;
  \<^item> \<open>number_to_string H q\<close>: the string of a number that is no integer below
    \<open>10\<^sup>2\<^sup>1\<close> in magnitude;
  \<^item> \<open>host_compare H c h w\<close>: a condition whose left operand is the host object \<open>h\<close>.
  The theorems below hold for every host; their closed instances name one.
\<close>

record host =
  inherited :: "jsval \<Rightarrow> string \<Rightarrow> jsval"
  string_to_number :: "string \<Rightarrow> number"
  number_to_string :: "rat \<Rightarrow> string"
  host_compare :: "Condition \<Rightarrow> hostobj \<Rightarrow> json \<Rightarrow> js_error + bool"

section \<open>Strings\<close>

text \<open>White space and line terminators among the code units below 256.\<close>

definition is_whitespace :: "char \<Rightarrow> bool" where
  "is_whitespace c = (of_char c \<in> set [9, 10, 11, 12, 13, 32, 160 :: nat])"

text \<open>\<^verbatim>\<open>String.prototype.trim\<close>\<close>

definition trim :: "string \<Rightarrow> string" where
  "trim s = rev (dropWhile is_whitespace (rev (dropWhile is_whitespace s)))"

text \<open>\<^verbatim>\<open>String.prototype.split\<close> with a separator of one code unit.\<close>

fun js_split :: "char \<Rightarrow> string \<Rightarrow> string list" where
  "js_split d [] = [] # []"
| "js_split d (c # cs) =
     (if c = d then [] # js_split d cs
      else (case js_split d cs of [] \<Rightarrow> [c] # [] | p # ps \<Rightarrow> (c # p) # ps))"

definition is_digit :: "char \<Rightarrow> bool" where
  "is_digit c = (48 \<le> (of_char c :: nat) \<and> (of_char c :: nat) \<le> 57)"

definition digit_val :: "char \<Rightarrow> nat" where
  "digit_val c = of_char c - 48"

definition hex_val :: "char \<Rightarrow> nat option" where
  "hex_val c =
     (let n = (of_char c :: nat) in
      if 48 \<le> n \<and> n \<le> 57 then Some (n - 48)
      else if 97 \<le> n \<and> n \<le> 102 then Some (n - 87)
      else if 65 \<le> n \<and> n \<le> 70 then Some (n - 55)
      else None)"

definition radix_val :: "nat \<Rightarrow> char \<Rightarrow> nat option" where
  "radix_val r c = (if r = 16 then hex_val c else if is_digit c then Some (digit_val c) else None)"

text \<open>
  \<^verbatim>\<open>Number.parseInt(s)\<close> with no radix: leading white space is skipped, a sign is read, a
  prefix \<^verbatim>\<open>0x\<close> selects radix 16, and the longest run of digits is the value.  No digit at
  all gives \<^verbatim>\<open>NaN\<close>, here \<open>None\<close>.
\<close>

definition parseInt :: "string \<Rightarrow> int option" where
  "parseInt s =
     (let t = dropWhile is_whitespace s;
          sign = (if take 1 t = ''-'' then - 1 else 1 :: int);
          t = (if take 1 t = ''-'' \<or> take 1 t = ''+'' then drop 1 t else t);
          radix = (if take 2 t = ''0x'' \<or> take 2 t = ''0X'' then 16 else 10 :: nat);
          t = (if radix = 16 then drop 2 t else t);
          z = takeWhile (\<lambda>c. radix_val radix c \<noteq> None) t
      in if z = [] then None
         else Some (sign * int (foldl (\<lambda>a c. radix * a + the (radix_val radix c)) 0 z)))"

text \<open>
  The decimal form of an integer: the property key that an index becomes, and the string
  of a number that is an integer below \<open>10\<^sup>2\<^sup>1\<close> in magnitude.
\<close>

fun show_nat :: "nat \<Rightarrow> string" where
  "show_nat n =
     (if n < 10 then [''0123456789'' ! n]
      else show_nat (n div 10) @ [''0123456789'' ! (n mod 10)])"

declare show_nat.simps [simp del]

definition show_int :: "int \<Rightarrow> string" where
  "show_int i = (if i < 0 then CHR ''-'' # show_nat (nat (- i)) else show_nat (nat i))"

text \<open>An array index as a property key: decimal digits with no leading zero.\<close>

definition array_index :: "string \<Rightarrow> nat option" where
  "array_index k =
     (if k = ''0'' then Some 0
      else if k = [] then None
      else if take 1 k = ''0'' then None
      else if list_all is_digit k then Some (foldl (\<lambda>a c. 10 * a + digit_val c) 0 k)
      else None)"

section \<open>Property access\<close>

text \<open>
  \<^verbatim>\<open>prev?.[current]\<close>: \<^verbatim>\<open>undefined\<close> and \<^verbatim>\<open>null\<close> read as \<^verbatim>\<open>undefined\<close>; an object
  answers from its own properties, an array and a string from their elements and their
  \<^verbatim>\<open>length\<close>; every other key goes to the host.
\<close>

fun js_get :: "host \<Rightarrow> jsval \<Rightarrow> string \<Rightarrow> jsval" where
  "js_get H Undefined k = Undefined"
| "js_get H (Json JNull) k = Undefined"
| "js_get H (Json (JObj kvs)) k =
     (case map_of kvs k of Some v \<Rightarrow> Json v | None \<Rightarrow> inherited H (Json (JObj kvs)) k)"
| "js_get H (Json (JArr xs)) k =
     (if k = ''length'' then Json (JNum (of_nat (length xs)))
      else (case array_index k of
              Some i \<Rightarrow> if i < length xs then Json (xs ! i) else inherited H (Json (JArr xs)) k
            | None \<Rightarrow> inherited H (Json (JArr xs)) k))"
| "js_get H (Json (JStr s)) k =
     (if k = ''length'' then Json (JNum (of_nat (length s)))
      else (case array_index k of
              Some i \<Rightarrow> if i < length s then Json (JStr [s ! i]) else inherited H (Json (JStr s)) k
            | None \<Rightarrow> inherited H (Json (JStr s)) k))"
| "js_get H (Json (JBool b)) k = inherited H (Json (JBool b)) k"
| "js_get H (Json (JNum n)) k = inherited H (Json (JNum n)) k"
| "js_get H (Host h) k = inherited H (Host h) k"

section \<open>Field resolution\<close>

text \<open>
  \<^verbatim>\<open>
  function indexOn(obj: Indexable, path: string): unknown | undefined {
    let parts = typeof path === "string" ? path.split(".") : [path];
    parts = parts.filter((v) => v.trim() !== "");
    return parts.reduce((prev, current) => {
      return prev?.[current];
    }, obj);
  }
  \<close>
  The path is \<^verbatim>\<open>rule.field\<close>, a string once the request has passed the schema.
\<close>

definition indexOn :: "host \<Rightarrow> json \<Rightarrow> string \<Rightarrow> jsval" where
  "indexOn H obj path =
     (let parts = js_split CHR ''.'' path;
          parts = filter (\<lambda>v. trim v \<noteq> '''') parts
      in foldl (\<lambda>prev current. js_get H prev current) (Json obj) parts)"

section \<open>Conversions and comparisons\<close>

text \<open>
  \<^verbatim>\<open>ToString\<close> of a decoded value.  An array is the join of its elements, \<^verbatim>\<open>null\<close>
  elements being empty.  An object is converted by the inherited \<^verbatim>\<open>toString\<close>; an own
  property of that name hides it, is not callable, and the conversion throws.
\<close>

fun to_string :: "host \<Rightarrow> json \<Rightarrow> js_error + string"
and join :: "host \<Rightarrow> json list \<Rightarrow> js_error + string" where
  "to_string H JNull = Inr ''null''"
| "to_string H (JBool b) = Inr (if b then ''true'' else ''false'')"
| "to_string H (JNum q) =
     Inr (if q = of_int \<lfloor>q\<rfloor> \<and> \<bar>q\<bar> < 10 ^ 21 then show_int \<lfloor>q\<rfloor>
          else number_to_string H q)"
| "to_string H (JStr s) = Inr s"
| "to_string H (JArr xs) = join H xs"
| "to_string H (JObj kvs) =
     (if map_of kvs ''toString'' \<noteq> None then Inl TypeError else Inr ''[object Object]'')"
| "join H [] = Inr []"
| "join H (x # xs) =
     (case (if x = JNull then Inr [] else to_string H x) of
        Inl e \<Rightarrow> Inl e
      | Inr s \<Rightarrow> if xs = [] then Inr s
               else (case join H xs of Inl e \<Rightarrow> Inl e | Inr t \<Rightarrow> Inr (s @ '','' @ t)))"

text \<open>\<^verbatim>\<open>ToPrimitive\<close>: arrays and objects become their string, the rest is primitive.\<close>

definition to_primitive :: "host \<Rightarrow> json \<Rightarrow> js_error + json" where
  "to_primitive H v =
     (case v of
        JArr xs \<Rightarrow> (case to_string H v of Inl e \<Rightarrow> Inl e | Inr s \<Rightarrow> Inr (JStr s))
      | JObj kvs \<Rightarrow> (case to_string H v of Inl e \<Rightarrow> Inl e | Inr s \<Rightarrow> Inr (JStr s))
      | _ \<Rightarrow> Inr v)"

text \<open>\<^verbatim>\<open>ToNumber\<close> of a primitive.\<close>

definition to_number :: "host \<Rightarrow> json \<Rightarrow> number" where
  "to_number H p =
     (case p of
        JNull \<Rightarrow> Fin 0
      | JBool b \<Rightarrow> Fin (if b then 1 else 0)
      | JNum q \<Rightarrow> Fin q
      | JStr s \<Rightarrow> string_to_number H s
      | _ \<Rightarrow> NaN)"

text \<open>The order of numbers; \<open>None\<close> is the undefined answer that \<^verbatim>\<open>NaN\<close> gives.\<close>

fun num_less :: "number \<Rightarrow> number \<Rightarrow> bool option" where
  "num_less NaN y = None"
| "num_less x NaN = None"
| "num_less NegInf NegInf = Some False"
| "num_less NegInf y = Some True"
| "num_less PosInf y = Some False"
| "num_less (Fin a) NegInf = Some False"
| "num_less (Fin a) (Fin b) = Some (a < b)"
| "num_less (Fin a) PosInf = Some True"

text \<open>The order of strings, code unit by code unit.\<close>

fun str_less :: "string \<Rightarrow> string \<Rightarrow> bool" where
  "str_less [] [] = False"
| "str_less [] (y # ys) = True"
| "str_less (x # xs) [] = False"
| "str_less (x # xs) (y # ys) =
     (if x = y then str_less xs ys else (of_char x :: nat) < of_char y)"

text \<open>\<^verbatim>\<open>IsLessThan\<close> on two primitives.\<close>

definition prim_less :: "host \<Rightarrow> json \<Rightarrow> json \<Rightarrow> bool option" where
  "prim_less H p q =
     (case (p, q) of
        (JStr a, JStr b) \<Rightarrow> Some (str_less a b)
      | _ \<Rightarrow> num_less (to_number H p) (to_number H q))"

text \<open>
  \<^verbatim>\<open>===\<close> and the \<^verbatim>\<open>SameValueZero\<close> of \<^verbatim>\<open>Array.prototype.includes\<close>: primitives are
  compared by value, arrays and objects by identity.  Both operands are different
  positions of one decoded tree, so two arrays or two objects are never identical.
\<close>

fun strict_eq :: "json \<Rightarrow> json \<Rightarrow> bool" where
  "strict_eq JNull JNull = True"
| "strict_eq (JBool a) (JBool b) = (a = b)"
| "strict_eq (JNum a) (JNum b) = (a = b)"
| "strict_eq (JStr a) (JStr b) = (a = b)"
| "strict_eq v w = False"

definition js_strict_eq :: "jsval \<Rightarrow> json \<Rightarrow> bool" where
  "js_strict_eq value other = (case value of Json v \<Rightarrow> strict_eq v other | _ \<Rightarrow> False)"

text \<open>\<^verbatim>\<open>value > other\<close> is \<^verbatim>\<open>IsLessThan(other, value)\<close> being true.\<close>

definition js_gt :: "host \<Rightarrow> jsval \<Rightarrow> json \<Rightarrow> js_error + bool" where
  "js_gt H value other =
     (case value of
        Host h \<Rightarrow> host_compare H gt h other
      | Undefined \<Rightarrow> (case to_primitive H other of Inl e \<Rightarrow> Inl e | Inr q \<Rightarrow> Inr False)
      | Json v \<Rightarrow>
          (case to_primitive H v of
             Inl e \<Rightarrow> Inl e
           | Inr p \<Rightarrow>
               (case to_primitive H other of
                  Inl e \<Rightarrow> Inl e
                | Inr q \<Rightarrow> Inr (prim_less H q p = Some True))))"

text \<open>\<^verbatim>\<open>value >= other\<close> is \<^verbatim>\<open>IsLessThan(value, other)\<close> being false.\<close>

definition js_gte :: "host \<Rightarrow> jsval \<Rightarrow> json \<Rightarrow> js_error + bool" where
  "js_gte H value other =
     (case value of
        Host h \<Rightarrow> host_compare H gte h other
      | Undefined \<Rightarrow> (case to_primitive H other of Inl e \<Rightarrow> Inl e | Inr q \<Rightarrow> Inr False)
      | Json v \<Rightarrow>
          (case to_primitive H v of
             Inl e \<Rightarrow> Inl e
           | Inr p \<Rightarrow>
               (case to_primitive H other of
                  Inl e \<Rightarrow> Inl e
                | Inr q \<Rightarrow> Inr (prim_less H p q = Some False))))"

text \<open>\<^verbatim>\<open>String.prototype.includes\<close> after the conversion of its argument.\<close>

fun is_substring :: "string \<Rightarrow> string \<Rightarrow> bool" where
  "is_substring t [] = (t = [])"
| "is_substring t (c # cs) = (take (length t) (c # cs) = t \<or> is_substring t cs)"

text \<open>
  \<^verbatim>\<open>value.includes(element)\<close>.  A string and an array have the method.  On \<^verbatim>\<open>null\<close> the
  read throws; a number, a boolean and an object have no such method (an own property
  \<^verbatim>\<open>includes\<close> of a decoded object is not callable), so the call throws.
\<close>

definition js_includes :: "host \<Rightarrow> jsval \<Rightarrow> json \<Rightarrow> js_error + bool" where
  "js_includes H value element =
     (case value of
        Json (JStr s) \<Rightarrow>
          (case to_string H element of Inl e \<Rightarrow> Inl e | Inr t \<Rightarrow> Inr (is_substring t s))
      | Json (JArr xs) \<Rightarrow> Inr (list_ex (\<lambda>x. strict_eq x element) xs)
      | Host h \<Rightarrow> host_compare H contains h element
      | _ \<Rightarrow> Inl TypeError)"

section \<open>The condition registry\<close>

text \<open>
  \<^verbatim>\<open>
  function containsValidator(value: string | any[], element: any, index?: number) {
    if (index != null && !Number.isNaN(index)) {
      return value?.[index] === element;
    }
    return value.includes(element);
  }
  \<close>
  The optional index is \<open>None\<close> when the caller passes none, \<open>Some None\<close> when it is
  \<^verbatim>\<open>NaN\<close>, and \<open>Some (Some i)\<close> when it is the integer \<open>i\<close>.
\<close>

definition containsValidator :: "host \<Rightarrow> jsval \<Rightarrow> json \<Rightarrow> int option option \<Rightarrow> js_error + bool" where
  "containsValidator H value element index =
     (case index of
        Some (Some i) \<Rightarrow> Inr (js_strict_eq (js_get H value (show_int i)) element)
      | _ \<Rightarrow> js_includes H value element)"

text \<open>
  \<^verbatim>\<open>
  const conditions = {
    eq: (value, other) => value === other,
    neq: (value, other) => value !== other,
    gt: (value, other) => value > other,
    gte: (value, other) => value >= other,
    contains: containsValidator,
  };
  \<close>
  Only \<^verbatim>\<open>contains\<close> reads a third argument.
\<close>

fun conditions :: "host \<Rightarrow> Condition \<Rightarrow> jsval \<Rightarrow> json \<Rightarrow> int option option \<Rightarrow> js_error + bool" where
  "conditions H eq value other index = Inr (js_strict_eq value other)"
| "conditions H neq value other index = Inr (\<not> js_strict_eq value other)"
| "conditions H gt value other index = js_gt H value other"
| "conditions H gte value other index = js_gte H value other"
| "conditions H contains value other index = containsValidator H value other index"

text \<open>\<^verbatim>\<open>Object.keys(conditions)\<close> and the key of each condition.\<close>

fun condition_name :: "Condition \<Rightarrow> string" where
  "condition_name eq = ''eq''"
| "condition_name neq = ''neq''"
| "condition_name gt = ''gt''"
| "condition_name gte = ''gte''"
| "condition_name contains = ''contains''"

definition condition_keys :: "Condition list" where
  "condition_keys = [eq, neq, gt, gte, contains]"

section \<open>Requests and results\<close>

record Rule =
  field :: string
  condition :: Condition
  condition_value :: json

record Request =
  data :: json
  rule :: Rule

datatype EarlyAbortReason =
  invalid_schema | type_error | missing_required_field | missing_data_field

datatype EarlyAbort = EarlyAbort EarlyAbortReason string

text \<open>
  \<^verbatim>\<open>ValidationCompleted\<close> has the three fields of a rule, the flag \<^verbatim>\<open>error\<close> and
  \<^verbatim>\<open>field_value\<close>.
\<close>

record ValidationCompleted = Rule +
  error :: bool
  field_value :: jsval

datatype ValidationResult = aborted EarlyAbort | completed ValidationCompleted

section \<open>The request schema\<close>

text \<open>
  The schemas are values of the validation library Joi, which is not part of the
  repository.  Each schema is modelled by the function that gives the first error the
  library reports for it (\<^verbatim>\<open>error.details[0]\<close>, the library stopping at the first
  error), or the typed value when there is none.  A key that is absent reads as
  \<open>None\<close>.  The library checks the keys of an object schema in the order of their
  declaration and, after them, rejects the first own key the schema does not declare; a
  string schema rejects the empty string; messages not overridden by the source are the
  library's own, with the dotted path in double quotes as label.
\<close>

record details =
  dtype :: string
  dpath :: "string list"
  dmessage :: string

fun join_with :: "string \<Rightarrow> string list \<Rightarrow> string" where
  "join_with sep [] = []"
| "join_with sep [p] = p"
| "join_with sep (p # q # ps) = p @ sep @ join_with sep (q # ps)"

definition label :: "string list \<Rightarrow> string" where
  "label path = [CHR 0x22] @ join_with ''.'' path @ [CHR 0x22]"

definition unknown_key :: "string list \<Rightarrow> string list \<Rightarrow> (string \<times> json) list \<Rightarrow> details option" where
  "unknown_key path declared kvs =
     (case filter (\<lambda>k. k \<notin> set declared) (map fst kvs) of
        [] \<Rightarrow> None
      | k # ks \<Rightarrow>
          Some \<lparr>dtype = ''object.unknown'', dpath = path @ [k],
                dmessage = label (path @ [k]) @ '' is not allowed''\<rparr>)"

text \<open>
  \<^verbatim>\<open>
  field: Joi.string().exist().messages({
    "any.required": "rule.field is required",
    "string.base": "rule.field should be a string",
  }),
  \<close>
\<close>

definition field_schema :: "json option \<Rightarrow> details + string" where
  "field_schema item =
     (case item of
        None \<Rightarrow> Inl \<lparr>dtype = ''any.required'', dpath = [''rule'', ''field''],
                      dmessage = ''rule.field is required''\<rparr>
      | Some (JStr s) \<Rightarrow>
          if s = [] then Inl \<lparr>dtype = ''string.empty'', dpath = [''rule'', ''field''],
                              dmessage = label [''rule'', ''field''] @ '' is not allowed to be empty''\<rparr>
          else Inr s
      | Some v \<Rightarrow> Inl \<lparr>dtype = ''string.base'', dpath = [''rule'', ''field''],
                        dmessage = ''rule.field should be a string''\<rparr>)"

text \<open>
  \<^verbatim>\<open>
  condition: Joi.valid(...Object.keys(conditions)).exist().messages({
    "any.only": "rule.condition must be one of eq, neq, gt, gte, or contains",
    "any.required": "rule.condition is required",
  }),
  \<close>
\<close>

definition condition_schema :: "json option \<Rightarrow> details + Condition" where
  "condition_schema item =
     (case item of
        None \<Rightarrow> Inl \<lparr>dtype = ''any.required'', dpath = [''rule'', ''condition''],
                      dmessage = ''rule.condition is required''\<rparr>
      | Some v \<Rightarrow>
          (case filter (\<lambda>c. v = JStr (condition_name c)) condition_keys of
             c # cs \<Rightarrow> Inr c
           | [] \<Rightarrow> Inl \<lparr>dtype = ''any.only'', dpath = [''rule'', ''condition''],
                         dmessage = ''rule.condition must be one of eq, neq, gt, gte, or contains''\<rparr>))"

text \<open>
  \<^verbatim>\<open>
  condition_value: Joi.any().exist().messages({
    "any.required": "rule.condition_value is required",
  }),
  \<close>
\<close>

definition condition_value_schema :: "json option \<Rightarrow> details + json" where
  "condition_value_schema item =
     (case item of
        None \<Rightarrow> Inl \<lparr>dtype = ''any.required'', dpath = [''rule'', ''condition_value''],
                      dmessage = ''rule.condition_value is required''\<rparr>
      | Some v \<Rightarrow> Inr v)"

text \<open>
  \<^verbatim>\<open>
  const ruleSchema = Joi.object({ field: ..., condition: ..., condition_value: ... })
    .messages({ "object.base": "rule should be an object." });
  rule: ruleSchema.exist().messages({ "any.required": "rule is required." }),
  \<close>
\<close>

definition ruleSchema :: "json option \<Rightarrow> details + Rule" where
  "ruleSchema item =
     (case item of
        None \<Rightarrow> Inl \<lparr>dtype = ''any.required'', dpath = [''rule''],
                      dmessage = ''rule is required.''\<rparr>
      | Some (JObj kvs) \<Rightarrow>
          (case field_schema (map_of kvs ''field'') of
             Inl d \<Rightarrow> Inl d
           | Inr f \<Rightarrow>
          (case condition_schema (map_of kvs ''condition'') of
             Inl d \<Rightarrow> Inl d
           | Inr c \<Rightarrow>
          (case condition_value_schema (map_of kvs ''condition_value'') of
             Inl d \<Rightarrow> Inl d
           | Inr w \<Rightarrow>
          (case unknown_key [''rule''] [''field'', ''condition'', ''condition_value''] kvs of
             Some d \<Rightarrow> Inl d
           | None \<Rightarrow> Inr \<lparr>field = f, condition = c, condition_value = w\<rparr>))))
      | Some v \<Rightarrow> Inl \<lparr>dtype = ''object.base'', dpath = [''rule''],
                        dmessage = ''rule should be an object.''\<rparr>)"

text \<open>
  \<^verbatim>\<open>
  const dataSchema = Joi.alternatives(Joi.array(), Joi.object(), Joi.string());
  data: dataSchema.exist().messages({
    "any.required": "data is required.",
    "alternatives.types": "data should be an array, an object, or a string.",
  }),
  \<close>
  When no alternative matches and all fail on the type of the value, the library reports
  \<^verbatim>\<open>alternatives.types\<close>; the empty string fails the string alternative for another
  reason, and that error is the one reported.
\<close>

definition dataSchema :: "json option \<Rightarrow> details + json" where
  "dataSchema item =
     (case item of
        None \<Rightarrow> Inl \<lparr>dtype = ''any.required'', dpath = [''data''],
                      dmessage = ''data is required.''\<rparr>
      | Some (JArr xs) \<Rightarrow> Inr (JArr xs)
      | Some (JObj kvs) \<Rightarrow> Inr (JObj kvs)
      | Some (JStr s) \<Rightarrow>
          if s = [] then Inl \<lparr>dtype = ''string.empty'', dpath = [''data''],
                              dmessage = label [''data''] @ '' is not allowed to be empty''\<rparr>
          else Inr (JStr s)
      | Some v \<Rightarrow> Inl \<lparr>dtype = ''alternatives.types'', dpath = [''data''],
                        dmessage = ''data should be an array, an object, or a string.''\<rparr>)"

text \<open>
  \<^verbatim>\<open>
  const validatorSchema = Joi.object({ rule: ..., data: ... }).id("");
  \<close>
\<close>

definition validatorSchema :: "json \<Rightarrow> details + Request" where
  "validatorSchema req =
     (case req of
        JObj kvs \<Rightarrow>
          (case ruleSchema (map_of kvs ''rule'') of
             Inl d \<Rightarrow> Inl d
           | Inr r \<Rightarrow>
          (case dataSchema (map_of kvs ''data'') of
             Inl d \<Rightarrow> Inl d
           | Inr v \<Rightarrow>
          (case unknown_key [] [''rule'', ''data''] kvs of
             Some d \<Rightarrow> Inl d
           | None \<Rightarrow> Inr \<lparr>data = v, rule = r\<rparr>)))
      | _ \<Rightarrow> Inl \<lparr>dtype = ''object.base'', dpath = [],
                      dmessage = label [''value''] @ '' must be of type object''\<rparr>)"

text \<open>
  \<^verbatim>\<open>
  function parseRequest(req: unknown): { type: "request"; value: Request } | EarlyAbort {
    const result = validatorSchema.validate(req);
    if (result.error) {
      const details = result.error.details[0];
      const path = String(details?.path);
      if (["data", "rule"].includes(path) && details?.type === "any.required") {
        return { type: "missing_required_field", value: details.message };
      }
      if (path == "" && details?.type === "object.base") {
        return { type: "invalid_schema", value: "Invalid JSON payload passed." };
      }
      switch (details?.type) {
        case "any.required": {
          return { type: "missing_required_field", value: details.message };
        }
        default:
          return { type: "type_error", value: details?.message || "" };
      }
    }
    return { type: "request", value: req as Request };
  }
  \<close>
  \<^verbatim>\<open>String\<close> of a path joins its keys with commas.
\<close>

definition parseRequest :: "json \<Rightarrow> EarlyAbort + Request" where
  "parseRequest req =
     (case validatorSchema req of
        Inl details \<Rightarrow>
          (let path = join_with '','' (dpath details) in
           if path \<in> set [''data'', ''rule''] \<and> dtype details = ''any.required''
           then Inl (EarlyAbort missing_required_field (dmessage details))
           else if path = [] \<and> dtype details = ''object.base''
           then Inl (EarlyAbort invalid_schema ''Invalid JSON payload passed.'')
           else if dtype details = ''any.required''
           then Inl (EarlyAbort missing_required_field (dmessage details))
           else Inl (EarlyAbort type_error (dmessage details)))
      | Inr request \<Rightarrow> Inr request)"

section \<open>The engine\<close>

text \<open>
  \<^verbatim>\<open>
  export function validate(req: unknown): ValidationResult {
    const result = parseRequest(req);
    if (result.type !== "request") {
      return result;
    }
    const { data, rule } = result.value;
    let comparison: boolean;
    let dataFieldValue;
    if (typeof data === "string" || Array.isArray(data)) {
      dataFieldValue = data;
      comparison = conditions[rule.condition](
        dataFieldValue, rule.condition_value, Number.parseInt(rule.field));
    } else {
      dataFieldValue = indexOn(data, rule.field);
    }
    if (dataFieldValue === undefined) {
      return { type: "missing_data_field",
               value: `field ${rule.field} is missing from data.` };
    }
    comparison = conditions[rule.condition](dataFieldValue, rule.condition_value);
    return { type: "completed",
             value: { condition: rule.condition, condition_value: rule.condition_value,
                      error: !comparison, field: rule.field,
                      field_value: dataFieldValue as Data } };
  }
  \<close>
  A thrown exception is the result \<open>Inl\<close>.  The first comparison, made for a string or
  an array, is assigned to \<^verbatim>\<open>comparison\<close> and overwritten by the second; it matters
  only when it throws.
\<close>

definition is_container :: "json \<Rightarrow> bool" where
  "is_container v = (case v of JStr s \<Rightarrow> True | JArr xs \<Rightarrow> True | _ \<Rightarrow> False)"

definition validate :: "host \<Rightarrow> json \<Rightarrow> js_error + ValidationResult" where
  "validate H req =
     (case parseRequest req of
        Inl result \<Rightarrow> Inr (aborted result)
      | Inr request \<Rightarrow>
          (case (if is_container (data request)
                 then (case conditions H (condition (rule request)) (Json (data request))
                              (condition_value (rule request))
                              (Some (parseInt (field (rule request)))) of
                         Inl e \<Rightarrow> Inl e
                       | Inr comparison \<Rightarrow> Inr (Json (data request)))
                 else Inr (indexOn H (data request) (field (rule request)))) of
             Inl e \<Rightarrow> Inl e
           | Inr dataFieldValue \<Rightarrow>
               if dataFieldValue = Undefined
               then Inr (aborted (EarlyAbort missing_data_field
                      (''field '' @ field (rule request) @ '' is missing from data.'')))
               else (case conditions H (condition (rule request)) dataFieldValue
                            (condition_value (rule request)) None of
                       Inl e \<Rightarrow> Inl e
                     | Inr comparison \<Rightarrow>
                         Inr (completed
                           \<lparr>field = field (rule request),
                            condition = condition (rule request),
                            condition_value = condition_value (rule request),
                            error = \<not> comparison,
                            field_value = dataFieldValue\<rparr>))))"

section \<open>The statements of the specification\<close>

text \<open>
  A host whose prototypes supply no member, for closed instances of the theorems.  The
  instances below convert no string to a number and no number to a string, and the keys
  that they look up without finding them (\<^verbatim>\<open>person\<close>, a key of one space) are no members
  of a built-in prototype.
\<close>

definition bare_host :: host where
  "bare_host =
     \<lparr>inherited = (\<lambda>v k. Undefined),
      string_to_number = (\<lambda>s. NaN),
      number_to_string = (\<lambda>q. []),
      host_compare = (\<lambda>c h w. Inl TypeError)\<rparr>"

definition is_object :: "json \<Rightarrow> bool" where
  "is_object v = (case v of JObj kvs \<Rightarrow> True | _ \<Rightarrow> False)"

text \<open>The five registered condition names, as the specification lists them.\<close>

definition registered :: "json list" where
  "registered = [JStr ''eq'', JStr ''neq'', JStr ''gt'', JStr ''gte'', JStr ''contains'']"

text \<open>
  Field resolution in the words of the specification (section 4.2): split the field on
  the dot, discard the empty segments, walk by successive key lookup; the result is
  missing as soon as a lookup finds nothing.
\<close>

definition spec_segments :: "string \<Rightarrow> string list" where
  "spec_segments path = filter (\<lambda>v. v \<noteq> []) (js_split CHR ''.'' path)"

fun spec_walk :: "host \<Rightarrow> jsval \<Rightarrow> string list \<Rightarrow> jsval option" where
  "spec_walk H v [] = Some v"
| "spec_walk H v (k # ks) =
     (if js_get H v k = Undefined then None else spec_walk H (js_get H v k) ks)"

definition spec_resolve :: "host \<Rightarrow> json \<Rightarrow> string list \<Rightarrow> jsval" where
  "spec_resolve H obj segments =
     (case spec_walk H (Json obj) segments of None \<Rightarrow> Undefined | Some v \<Rightarrow> v)"

text \<open>The segments that hold a code unit other than white space.\<close>

definition nonblank_segments :: "string \<Rightarrow> string list" where
  "nonblank_segments path =
     filter (\<lambda>v. \<not> list_all is_whitespace v) (js_split CHR ''.'' path)"

text \<open>
  The shape rules of section 4.1 of the specification, each with the abort it asks for,
  collected in the priority order: the top-level value, the presence of the rule, its
  shape, its field, its condition, its condition value, the presence of the data, the
  type of the data.  Where the specification names no message, the message is the one of
  the source.
\<close>

definition spec_rule_violations :: "(string \<times> json) list \<Rightarrow> EarlyAbort list" where
  "spec_rule_violations r =
     (case map_of r ''field'' of
        None \<Rightarrow> [EarlyAbort missing_required_field ''rule.field is required'']
      | Some (JStr f) \<Rightarrow> []
      | Some v \<Rightarrow> [EarlyAbort type_error ''rule.field should be a string''])
     @ (case map_of r ''condition'' of
          None \<Rightarrow> [EarlyAbort missing_required_field ''rule.condition is required'']
        | Some c \<Rightarrow>
            if c \<in> set registered then []
            else [EarlyAbort type_error
                    ''rule.condition must be one of eq, neq, gt, gte, or contains''])
     @ (case map_of r ''condition_value'' of
          None \<Rightarrow> [EarlyAbort missing_required_field ''rule.condition_value is required'']
        | Some w \<Rightarrow> [])"

definition spec_data_violations :: "json option \<Rightarrow> EarlyAbort list" where
  "spec_data_violations item =
     (case item of
        None \<Rightarrow> [EarlyAbort missing_required_field ''data is required.'']
      | Some (JObj kvs) \<Rightarrow> []
      | Some (JArr xs) \<Rightarrow> []
      | Some (JStr s) \<Rightarrow> []
      | Some v \<Rightarrow> [EarlyAbort type_error ''data should be an array, an object, or a string.''])"

definition spec_violations :: "json \<Rightarrow> EarlyAbort list" where
  "spec_violations req =
     (case req of
        JObj kvs \<Rightarrow>
          (case map_of kvs ''rule'' of
             None \<Rightarrow> [EarlyAbort missing_required_field ''rule is required.'']
           | Some (JObj r) \<Rightarrow> spec_rule_violations r
           | Some v \<Rightarrow> [EarlyAbort type_error ''rule should be an object.''])
          @ spec_data_violations (map_of kvs ''data'')
      | _ \<Rightarrow> [EarlyAbort invalid_schema ''Invalid JSON payload passed.''])"

text \<open>A request whose rule, when it is an object, has no empty string as field.\<close>

definition field_not_empty :: "json \<Rightarrow> bool" where
  "field_not_empty req =
     (case req of
        JObj kvs \<Rightarrow>
          (case map_of kvs ''rule'' of
             Some (JObj r) \<Rightarrow> map_of r ''field'' \<noteq> Some (JStr [])
           | _ \<Rightarrow> True)
      | _ \<Rightarrow> True)"

text \<open>An outcome without the field string it echoes.\<close>

definition forget_field :: "js_error + ValidationResult \<Rightarrow> js_error + ValidationResult" where
  "forget_field out =
     (case out of Inr (completed c) \<Rightarrow> Inr (completed (c\<lparr>field := []\<rparr>)) | _ \<Rightarrow> out)"

section \<open>Auxiliary facts\<close>

lemmas schema_defs = parseRequest_def validatorSchema_def ruleSchema_def dataSchema_def
  field_schema_def condition_schema_def condition_value_schema_def unknown_key_def
  condition_keys_def label_def

lemmas string_defs = is_whitespace_def trim_def is_digit_def digit_val_def hex_val_def
  radix_val_def parseInt_def show_int_def array_index_def

lemmas compare_defs = containsValidator_def js_includes_def js_strict_eq_def js_gt_def
  js_gte_def to_primitive_def to_number_def prim_less_def

lemma js_error_eq [simp]: "(a = TypeError) = True"
  by (cases a) simp

text \<open>Once a read has given \<^verbatim>\<open>undefined\<close>, the optional chaining keeps it.\<close>

lemma foldl_get_Undefined:
  "foldl (\<lambda>prev current. js_get H prev current) Undefined ks = Undefined"
  by (induction ks) simp_all

lemma foldl_get_walk:
  "foldl (\<lambda>prev current. js_get H prev current) v ks =
     (case spec_walk H v ks of None \<Rightarrow> Undefined | Some w \<Rightarrow> w)"
proof (induction ks arbitrary: v)
  case Nil
  show ?case by simp
next
  case (Cons k ks)
  show ?case
  proof (cases "js_get H v k = Undefined")
    case True
    then show ?thesis by (simp add: foldl_get_Undefined)
  next
    case False
    then show ?thesis using Cons.IH [of "js_get H v k"] by simp
  qed
qed

lemma all_dropWhile:
  "(\<forall>x\<in>set (dropWhile P v). P x) = (\<forall>x\<in>set v. P x)"
proof
  assume a: "\<forall>x\<in>set (dropWhile P v). P x"
  have "dropWhile P v = []"
  proof (rule ccontr)
    assume ne: "dropWhile P v \<noteq> []"
    then have "\<not> P (hd (dropWhile P v))" by (rule hd_dropWhile)
    moreover have "hd (dropWhile P v) \<in> set (dropWhile P v)" using ne by simp
    ultimately show False using a by blast
  qed
  then show "\<forall>x\<in>set v. P x" by simp
next
  assume "\<forall>x\<in>set v. P x"
  then show "\<forall>x\<in>set (dropWhile P v). P x" by (auto dest: set_dropWhileD)
qed

text \<open>The filter of \<open>indexOn\<close> drops exactly the segments made of white space.\<close>

lemma trim_empty: "(trim v = []) = list_all is_whitespace v"
  by (simp add: trim_def all_dropWhile list_all_iff)

lemma indexOn_walk: "indexOn H obj path = spec_resolve H obj (nonblank_segments path)"
  by (simp add: indexOn_def spec_resolve_def nonblank_segments_def trim_empty foldl_get_walk)

text \<open>
  The pieces of a split, joined by the separator, are the string again, and no piece
  holds the separator.
\<close>

lemma js_split_not_Nil: "js_split d s \<noteq> []"
  by (induction s) (auto split: list.splits)

lemma js_split_join: "join_with [d] (js_split d s) = s"
proof (induction s)
  case Nil
  show ?case by simp
next
  case (Cons c cs)
  obtain p ps where ps: "js_split d cs = p # ps"
    using js_split_not_Nil [of d cs] by (cases "js_split d cs") auto
  show ?case using Cons ps by (cases ps) auto
qed

lemma js_split_no_separator: "p \<in> set (js_split d s) \<Longrightarrow> d \<notin> set p"
  by (induction s arbitrary: p) (auto split: if_splits list.splits)

text \<open>
  The comparison that \<open>validate\<close> makes first for a string or an array throws only if
  the second one does.
\<close>

lemma conditions_first_throws:
  "conditions H c v w i = Inl e \<Longrightarrow> conditions H c v w None = Inl e"
  by (cases c) (auto simp: containsValidator_def split: option.splits)

lemma validate_aborted: "parseRequest req = Inl a \<Longrightarrow> validate H req = Inr (aborted a)"
  by (simp add: validate_def)

lemma validate_container:
  assumes "parseRequest req = Inr r" "is_container (data r)"
  shows "validate H req =
     (case conditions H (condition (rule r)) (Json (data r)) (condition_value (rule r)) None of
        Inl e \<Rightarrow> Inl e
      | Inr b \<Rightarrow>
          Inr (completed \<lparr>field = field (rule r), condition = condition (rule r),
                 condition_value = condition_value (rule r), error = \<not> b,
                 field_value = Json (data r)\<rparr>))"
proof (cases "conditions H (condition (rule r)) (Json (data r)) (condition_value (rule r))
                (Some (parseInt (field (rule r))))")
  case (Inl e)
  then show ?thesis using assms conditions_first_throws [OF Inl]
    by (simp add: validate_def)
next
  case (Inr b)
  then show ?thesis using assms by (simp add: validate_def)
qed

lemma validate_object:
  assumes "parseRequest req = Inr r" "\<not> is_container (data r)"
  shows "validate H req =
     (if indexOn H (data r) (field (rule r)) = Undefined
      then Inr (aborted (EarlyAbort missing_data_field
             (''field '' @ field (rule r) @ '' is missing from data.'')))
      else (case conditions H (condition (rule r)) (indexOn H (data r) (field (rule r)))
                   (condition_value (rule r)) None of
              Inl e \<Rightarrow> Inl e
            | Inr b \<Rightarrow>
                Inr (completed \<lparr>field = field (rule r), condition = condition (rule r),
                       condition_value = condition_value (rule r), error = \<not> b,
                       field_value = indexOn H (data r) (field (rule r))\<rparr>)))"
  using assms by (simp add: validate_def)

text \<open>The schema against the shape rules of the specification.\<close>

lemma registered_filter:
  "(filter (\<lambda>k. c = JStr (condition_name k)) condition_keys = []) = (c \<notin> set registered)"
  by (auto simp: condition_keys_def registered_def)

lemma condition_schema_None:
  "condition_schema None =
     Inl \<lparr>dtype = ''any.required'', dpath = [''rule'', ''condition''],
          dmessage = ''rule.condition is required''\<rparr>"
  by (simp add: condition_schema_def)

lemma condition_schema_cases:
  "condition_schema (Some c) =
     (if c \<in> set registered
      then Inr (hd (filter (\<lambda>k. c = JStr (condition_name k)) condition_keys))
      else Inl \<lparr>dtype = ''any.only'', dpath = [''rule'', ''condition''],
                dmessage = ''rule.condition must be one of eq, neq, gt, gte, or contains''\<rparr>)"
  using registered_filter [of c]
  by (cases "filter (\<lambda>k. c = JStr (condition_name k)) condition_keys")
     (simp_all add: condition_schema_def)

text \<open>
  A violated rule on a subfield of the rule is what the schema reports, whatever other
  keys the rule has: the schema reaches the undeclared keys only after the three
  subfields have passed.
\<close>

lemma parse_rule_violation:
  assumes "map_of kvs ''rule'' = Some (JObj r)"
      and "map_of r ''field'' \<noteq> Some (JStr [])"
      and "spec_rule_violations r \<noteq> []"
  shows "parseRequest (JObj kvs) = Inl (hd (spec_rule_violations r))"
  using assms
  by (cases "map_of r ''field''"; cases "map_of r ''condition''";
      cases "map_of r ''condition_value''")
     (auto simp: spec_rule_violations_def parseRequest_def validatorSchema_def ruleSchema_def
        field_schema_def condition_schema_cases condition_schema_None
        condition_value_schema_def
        split: json.splits)

lemma spec_data_violations_length: "length (spec_data_violations item) \<le> 1"
  by (auto simp: spec_data_violations_def split: option.splits json.splits)

lemma parse_several_violations:
  assumes "2 \<le> length (spec_violations req)" "field_not_empty req"
  shows "parseRequest req = Inl (hd (spec_violations req))"
proof (cases req)
  case (JObj kvs)
  show ?thesis
  proof (cases "map_of kvs ''rule''")
    case None
    then show ?thesis using JObj
      by (simp add: spec_violations_def parseRequest_def validatorSchema_def ruleSchema_def)
  next
    case (Some v)
    show ?thesis
    proof (cases "is_object v")
      case False
      then show ?thesis using JObj Some
        by (cases v)
           (simp_all add: is_object_def spec_violations_def parseRequest_def
              validatorSchema_def ruleSchema_def)
    next
      case True
      then obtain r where v: "v = JObj r" by (cases v) (simp_all add: is_object_def)
      have rule: "map_of kvs ''rule'' = Some (JObj r)" using Some v by simp
      have fld: "map_of r ''field'' \<noteq> Some (JStr [])"
        using assms(2) JObj rule by (simp add: field_not_empty_def)
      have "2 \<le> length (spec_rule_violations r)
                 + length (spec_data_violations (map_of kvs ''data''))"
        using assms(1) JObj rule by (simp add: spec_violations_def)
      then have ne: "spec_rule_violations r \<noteq> []"
        using spec_data_violations_length [of "map_of kvs ''data''"] by auto
      show ?thesis
        using parse_rule_violation [OF rule fld ne] JObj rule ne
        by (simp add: spec_violations_def)
    qed
  qed
qed (simp_all add: spec_violations_def parseRequest_def validatorSchema_def)

section \<open>The tests of the repository\<close>

text \<open>
  The model returns what \<^verbatim>\<open>rules.spec.ts\<close> expects of the code, case by case.  The two
  cases of a missing field read a key that the data does not have: they are stated for
  the host without inherited members.
\<close>

lemma test_rule_required:
  "validate H (JObj []) = Inr (aborted (EarlyAbort missing_required_field ''rule is required.''))"
  by (simp add: validate_def schema_defs)

lemma test_data_required:
  "validate H
     (JObj [(''rule'', JObj [(''condition'', JStr ''eq''), (''condition_value'', JNum 2),
                             (''field'', JStr ''length'')])])
   = Inr (aborted (EarlyAbort missing_required_field ''data is required.''))"
  by (simp add: validate_def schema_defs)

lemma test_apostrophe:
  "validate H (JStr [CHR 0x27])
   = Inr (aborted (EarlyAbort invalid_schema ''Invalid JSON payload passed.''))"
  by (simp add: validate_def schema_defs)

lemma test_invalid_rule:
  "validate H (JObj [(''rule'', JStr []), (''data'', JObj [(''length'', JNum 2)])])
   = Inr (aborted (EarlyAbort type_error ''rule should be an object.''))"
  by (simp add: validate_def schema_defs)

lemma test_invalid_data:
  "validate H
     (JObj [(''rule'', JObj [(''condition'', JStr ''eq''), (''condition_value'', JNum 2),
                             (''field'', JStr ''length'')]),
            (''data'', JNum 1)])
   = Inr (aborted (EarlyAbort type_error ''data should be an array, an object, or a string.''))"
  by (simp add: validate_def schema_defs)

lemma test_missing_top_level_field:
  "validate bare_host
     (JObj [(''rule'', JObj [(''condition'', JStr ''eq''), (''condition_value'', JNum 2),
                             (''field'', JStr ''length'')]),
            (''data'', JObj [])])
   = Inr (aborted (EarlyAbort missing_data_field ''field length is missing from data.''))"
  by (simp add: validate_def schema_defs is_container_def indexOn_def trim_def
        is_whitespace_def bare_host_def)

lemma test_missing_nested_field:
  "validate bare_host
     (JObj [(''rule'', JObj [(''condition'', JStr ''eq''), (''condition_value'', JNum 2),
                             (''field'', JStr ''person.age'')]),
            (''data'', JObj [])])
   = Inr (aborted (EarlyAbort missing_data_field ''field person.age is missing from data.''))"
  by (simp add: validate_def schema_defs is_container_def indexOn_def trim_def
        is_whitespace_def bare_host_def)

lemma test_single_top_level_field:
  "validate H
     (JObj [(''data'', JObj [(''length'', JNum 2)]),
            (''rule'', JObj [(''condition'', JStr ''eq''), (''condition_value'', JNum 2),
                             (''field'', JStr ''length'')])])
   = Inr (completed \<lparr>field = ''length'', condition = eq, condition_value = JNum 2,
            error = False, field_value = Json (JNum 2)\<rparr>)"
  by (simp add: validate_def schema_defs is_container_def indexOn_def trim_def
        is_whitespace_def js_strict_eq_def)

lemma test_nested_field:
  "validate H
     (JObj [(''rule'', JObj [(''field'', JStr ''missions.count''), (''condition'', JStr ''gte''),
                             (''condition_value'', JNum 30)]),
            (''data'', JObj [(''name'', JStr ''James Holden''), (''crew'', JStr ''Rocinante''),
                             (''age'', JNum 34), (''position'', JStr ''Captain''),
                             (''missions'', JObj [(''count'', JNum 45), (''successful'', JNum 44),
                                                  (''failed'', JNum 1)])])])
   = Inr (completed \<lparr>field = ''missions.count'', condition = gte, condition_value = JNum 30,
            error = False, field_value = Json (JNum 45)\<rparr>)"
  by (simp add: validate_def schema_defs is_container_def indexOn_def trim_def
        is_whitespace_def compare_defs)

lemma test_missing_array_value:
  "validate H
     (JObj [(''rule'', JObj [(''field'', JStr ''5''), (''condition'', JStr ''contains''),
                             (''condition_value'', JStr ''rocinante'')]),
            (''data'', JArr [JStr ''The Nauvoo'', JStr ''The Razorback'', JStr ''The Roci'',
                             JStr ''Tycho''])])
   = Inr (completed \<lparr>field = ''5'', condition = contains,
            condition_value = JStr ''rocinante'', error = True,
            field_value = Json (JArr [JStr ''The Nauvoo'', JStr ''The Razorback'',
                                      JStr ''The Roci'', JStr ''Tycho''])\<rparr>)"
  by (simp add: validate_def schema_defs is_container_def string_defs compare_defs)

lemma test_invalid_rule_condition:
  "validate H
     (JObj [(''rule'', JObj [(''field'', JStr ''5''), (''condition'', JStr ''invalid''),
                             (''condition_value'', JStr ''rocinante'')]),
            (''data'', JArr [JStr ''The Nauvoo'', JStr ''The Razorback'', JStr ''The Roci'',
                             JStr ''Tycho''])])
   = Inr (aborted (EarlyAbort type_error
            ''rule.condition must be one of eq, neq, gt, gte, or contains''))"
  by (simp add: validate_def schema_defs)

section \<open>The claims\<close>

text \<open>
  Claim C1.  For a valid request whose data is a string or an array, the condition
  \<^verbatim>\<open>contains\<close> with a numeric field is to check the element at that index.  The code
  makes that check and discards it: the second call of the condition, without the index,
  decides.  Here the data is \<^verbatim>\<open>["a","b"]\<close>, the field \<^verbatim>\<open>"1"\<close> and the value
  \<^verbatim>\<open>"a"\<close>: the field parses as the number 1, the check at index 1 is false, and the
  outcome nevertheless has no error, since \<^verbatim>\<open>"a"\<close> is a member.
\<close>

theorem contains_index_overwritten:
  "validate H
     (JObj [(''rule'', JObj [(''field'', JStr ''1''), (''condition'', JStr ''contains''),
                             (''condition_value'', JStr ''a'')]),
            (''data'', JArr [JStr ''a'', JStr ''b''])])
   = Inr (completed \<lparr>field = ''1'', condition = contains, condition_value = JStr ''a'',
            error = False, field_value = Json (JArr [JStr ''a'', JStr ''b''])\<rparr>)
   \<and> parseInt ''1'' = Some 1
   \<and> containsValidator H (Json (JArr [JStr ''a'', JStr ''b''])) (JStr ''a'')
        (Some (parseInt ''1'')) = Inr False"
  by (simp add: validate_def schema_defs is_container_def string_defs compare_defs
        show_nat.simps)

text \<open>
  Claim C2.  The engine is to deliver every failure as a return value.  A request that
  passes the schema, whose field resolves to the number 5 under the condition
  \<^verbatim>\<open>contains\<close>, makes the engine call \<^verbatim>\<open>includes\<close> on a number: it throws.
\<close>

theorem contains_on_number_throws:
  "validate H
     (JObj [(''rule'', JObj [(''field'', JStr ''a''), (''condition'', JStr ''contains''),
                             (''condition_value'', JNum 1)]),
            (''data'', JObj [(''a'', JNum 5)])])
   = Inl TypeError"
  by (simp add: validate_def schema_defs is_container_def string_defs compare_defs
        indexOn_def)

text \<open>
  Claim C4, as amended.  When \<^verbatim>\<open>rule.field\<close> is a string that is not empty and
  \<^verbatim>\<open>rule.condition\<close> is present but is none of eq, neq, gt, gte, contains, the outcome is
  the abort \<^verbatim>\<open>type_error\<close> with the fixed message that lists them.
\<close>

theorem unregistered_condition_type_error:
  assumes "map_of kvs ''rule'' = Some (JObj r)"
      and "map_of r ''field'' = Some (JStr f)" and "f \<noteq> []"
      and "map_of r ''condition'' = Some c" and "c \<notin> set registered"
  shows "validate H (JObj kvs) =
           Inr (aborted (EarlyAbort type_error
                  ''rule.condition must be one of eq, neq, gt, gte, or contains''))"
  using assms
  by (simp add: validate_def parseRequest_def validatorSchema_def ruleSchema_def
        field_schema_def condition_schema_cases)

text \<open>
  Claim C4, an instance: the request of the repository's test, whose condition is
  \<^verbatim>\<open>"invalid"\<close>.
\<close>

theorem unregistered_condition_type_error_witness:
  "map_of [(''rule'', JObj [(''field'', JStr ''5''), (''condition'', JStr ''invalid''),
                            (''condition_value'', JStr ''rocinante'')]),
           (''data'', JArr [JStr ''The Nauvoo'', JStr ''Tycho''])] ''rule''
     = Some (JObj [(''field'', JStr ''5''), (''condition'', JStr ''invalid''),
                   (''condition_value'', JStr ''rocinante'')])
   \<and> JStr ''invalid'' \<notin> set registered
   \<and> validate bare_host
        (JObj [(''rule'', JObj [(''field'', JStr ''5''), (''condition'', JStr ''invalid''),
                                (''condition_value'', JStr ''rocinante'')]),
               (''data'', JArr [JStr ''The Nauvoo'', JStr ''Tycho''])])
      = Inr (aborted (EarlyAbort type_error
               ''rule.condition must be one of eq, neq, gt, gte, or contains''))"
  using unregistered_condition_type_error
    [of "[(''rule'', JObj [(''field'', JStr ''5''), (''condition'', JStr ''invalid''),
                           (''condition_value'', JStr ''rocinante'')]),
          (''data'', JArr [JStr ''The Nauvoo'', JStr ''Tycho''])]"
        "[(''field'', JStr ''5''), (''condition'', JStr ''invalid''),
          (''condition_value'', JStr ''rocinante'')]"
        "''5''" "JStr ''invalid''" bare_host]
  by (simp add: registered_def)

text \<open>
  Claim C4 as stated fails when the field of the rule is absent: the condition
  \<^verbatim>\<open>"lt"\<close> is present and not registered, and the outcome is the abort for the missing
  field, which the schema checks first.
\<close>

theorem unregistered_condition_counterexample:
  "JStr ''lt'' \<notin> set registered
   \<and> validate bare_host
       (JObj [(''rule'', JObj [(''condition'', JStr ''lt''), (''condition_value'', JNum 1)]),
              (''data'', JObj [])])
     = Inr (aborted (EarlyAbort missing_required_field ''rule.field is required''))"
  by (simp add: validate_def schema_defs registered_def)

text \<open>
  Claim C6.  For every top-level input that is not an object (a string, a number, a
  boolean, \<^verbatim>\<open>null\<close>, an array) the outcome is the abort \<^verbatim>\<open>invalid_schema\<close> with the
  message "Invalid JSON payload passed.".
\<close>

theorem non_object_invalid_schema:
  "\<not> is_object req \<Longrightarrow>
     validate H req = Inr (aborted (EarlyAbort invalid_schema ''Invalid JSON payload passed.''))"
  by (cases req) (simp_all add: validate_def parseRequest_def validatorSchema_def is_object_def)

text \<open>Claim C6, an instance: the string of one apostrophe of the repository's test.\<close>

theorem non_object_invalid_schema_witness:
  "\<not> is_object (JStr [CHR 0x27])
   \<and> validate bare_host (JStr [CHR 0x27])
     = Inr (aborted (EarlyAbort invalid_schema ''Invalid JSON payload passed.''))"
  using non_object_invalid_schema [of "JStr [CHR 0x27]" bare_host]
  by (simp add: is_object_def)

text \<open>
  Claim C7.  For string or array data the condition is evaluated against the whole
  container, not against a resolved scalar: the outcome of every valid request with such
  data is the condition applied, without an index, to the data itself and to the
  condition value, and the field value it echoes is the data itself.  For the rule with
  field \<^verbatim>\<open>"0"\<close>, condition \<^verbatim>\<open>eq\<close> and value \<^verbatim>\<open>"a"\<close> on the data \<^verbatim>\<open>"damien-marley"\<close>, the
  outcome is completed with the error flag set and the whole string as field value.  The
  character that the field selects in that string is \<^verbatim>\<open>"d"\<close>: with the value \<^verbatim>\<open>"d"\<close> the
  error flag is still set, and with the value \<^verbatim>\<open>"damien-marley"\<close> it is not.
\<close>

theorem whole_container_compared:
  "(parseRequest req = Inr r \<and> is_container (data r)
      \<longrightarrow> validate H req =
            (case conditions H (condition (rule r)) (Json (data r))
                    (condition_value (rule r)) None of
               Inl e \<Rightarrow> Inl e
             | Inr b \<Rightarrow>
                 Inr (completed
                        \<lparr>field = field (rule r), condition = condition (rule r),
                         condition_value = condition_value (rule r), error = \<not> b,
                         field_value = Json (data r)\<rparr>)))
   \<and> validate H
       (JObj [(''rule'', JObj [(''field'', JStr ''0''), (''condition'', JStr ''eq''),
                               (''condition_value'', JStr ''a'')]),
              (''data'', JStr ''damien-marley'')])
     = Inr (completed \<lparr>field = ''0'', condition = eq, condition_value = JStr ''a'',
              error = True, field_value = Json (JStr ''damien-marley'')\<rparr>)
   \<and> js_get H (Json (JStr ''damien-marley'')) ''0'' = Json (JStr ''d'')
   \<and> validate H
       (JObj [(''rule'', JObj [(''field'', JStr ''0''), (''condition'', JStr ''eq''),
                               (''condition_value'', JStr ''d'')]),
              (''data'', JStr ''damien-marley'')])
     = Inr (completed \<lparr>field = ''0'', condition = eq, condition_value = JStr ''d'',
              error = True, field_value = Json (JStr ''damien-marley'')\<rparr>)
   \<and> validate H
       (JObj [(''rule'', JObj [(''field'', JStr ''0''), (''condition'', JStr ''eq''),
                               (''condition_value'', JStr ''damien-marley'')]),
              (''data'', JStr ''damien-marley'')])
     = Inr (completed \<lparr>field = ''0'', condition = eq,
              condition_value = JStr ''damien-marley'',
              error = False, field_value = Json (JStr ''damien-marley'')\<rparr>)"
proof -
  have general: "parseRequest req = Inr r \<and> is_container (data r)
      \<longrightarrow> validate H req =
            (case conditions H (condition (rule r)) (Json (data r))
                    (condition_value (rule r)) None of
               Inl e \<Rightarrow> Inl e
             | Inr b \<Rightarrow>
                 Inr (completed
                        \<lparr>field = field (rule r), condition = condition (rule r),
                         condition_value = condition_value (rule r), error = \<not> b,
                         field_value = Json (data r)\<rparr>))"
    using validate_container [of req r H] by blast
  have a: "validate H
       (JObj [(''rule'', JObj [(''field'', JStr ''0''), (''condition'', JStr ''eq''),
                               (''condition_value'', JStr ''a'')]),
              (''data'', JStr ''damien-marley'')])
     = Inr (completed \<lparr>field = ''0'', condition = eq, condition_value = JStr ''a'',
              error = True, field_value = Json (JStr ''damien-marley'')\<rparr>)"
    by (simp add: validate_def schema_defs is_container_def string_defs compare_defs)
  have c: "js_get H (Json (JStr ''damien-marley'')) ''0'' = Json (JStr ''d'')"
    by (simp add: string_defs)
  have d: "validate H
       (JObj [(''rule'', JObj [(''field'', JStr ''0''), (''condition'', JStr ''eq''),
                               (''condition_value'', JStr ''d'')]),
              (''data'', JStr ''damien-marley'')])
     = Inr (completed \<lparr>field = ''0'', condition = eq, condition_value = JStr ''d'',
              error = True, field_value = Json (JStr ''damien-marley'')\<rparr>)"
    by (simp add: validate_def schema_defs is_container_def string_defs compare_defs)
  have w: "validate H
       (JObj [(''rule'', JObj [(''field'', JStr ''0''), (''condition'', JStr ''eq''),
                               (''condition_value'', JStr ''damien-marley'')]),
              (''data'', JStr ''damien-marley'')])
     = Inr (completed \<lparr>field = ''0'', condition = eq,
              condition_value = JStr ''damien-marley'',
              error = False, field_value = Json (JStr ''damien-marley'')\<rparr>)"
    by (simp add: validate_def schema_defs is_container_def string_defs compare_defs)
  from general a c d w show ?thesis by blast
qed

text \<open>
  Claim C7, an instance of the general statement: the array \<^verbatim>\<open>["a","b"]\<close> under the
  condition \<^verbatim>\<open>contains\<close> with the field \<^verbatim>\<open>"1"\<close> and the value \<^verbatim>\<open>"a"\<close>.  The outcome is
  the membership of \<^verbatim>\<open>"a"\<close> in the whole array, and the whole array is echoed.
\<close>

theorem whole_container_compared_witness:
  "parseRequest
     (JObj [(''rule'', JObj [(''field'', JStr ''1''), (''condition'', JStr ''contains''),
                             (''condition_value'', JStr ''a'')]),
            (''data'', JArr [JStr ''a'', JStr ''b''])])
     = Inr \<lparr>data = JArr [JStr ''a'', JStr ''b''],
            rule = \<lparr>field = ''1'', condition = contains, condition_value = JStr ''a''\<rparr>\<rparr>
   \<and> is_container (JArr [JStr ''a'', JStr ''b''])
   \<and> conditions bare_host contains (Json (JArr [JStr ''a'', JStr ''b''])) (JStr ''a'') None
       = Inr True
   \<and> validate bare_host
       (JObj [(''rule'', JObj [(''field'', JStr ''1''), (''condition'', JStr ''contains''),
                               (''condition_value'', JStr ''a'')]),
              (''data'', JArr [JStr ''a'', JStr ''b''])])
     = Inr (completed \<lparr>field = ''1'', condition = contains, condition_value = JStr ''a'',
              error = False, field_value = Json (JArr [JStr ''a'', JStr ''b''])\<rparr>)"
proof -
  have p: "parseRequest
     (JObj [(''rule'', JObj [(''field'', JStr ''1''), (''condition'', JStr ''contains''),
                             (''condition_value'', JStr ''a'')]),
            (''data'', JArr [JStr ''a'', JStr ''b''])])
     = Inr \<lparr>data = JArr [JStr ''a'', JStr ''b''],
            rule = \<lparr>field = ''1'', condition = contains, condition_value = JStr ''a''\<rparr>\<rparr>"
    by (simp add: schema_defs)
  have k: "is_container (JArr [JStr ''a'', JStr ''b''])"
    by (simp add: is_container_def)
  have m: "conditions bare_host contains (Json (JArr [JStr ''a'', JStr ''b''])) (JStr ''a'')
             None = Inr True"
    by (simp add: containsValidator_def js_includes_def)
  show ?thesis
    using whole_container_compared
      [where req = "JObj [(''rule'', JObj [(''field'', JStr ''1''),
                                           (''condition'', JStr ''contains''),
                                           (''condition_value'', JStr ''a'')]),
                          (''data'', JArr [JStr ''a'', JStr ''b''])]"
         and r = "\<lparr>data = JArr [JStr ''a'', JStr ''b''],
                   rule = \<lparr>field = ''1'', condition = contains,
                           condition_value = JStr ''a''\<rparr>\<rparr>"
         and H = bare_host]
      p k m
    by simp
qed

text \<open>
  Claim C3, as amended.  For every object and every dotted path, \<open>indexOn\<close> is the walk
  that indexes by each dot-separated segment holding a code unit other than white space,
  in order, and is missing as soon as a read yields \<^verbatim>\<open>undefined\<close> (a key that the object
  does not have and no prototype supplies, or a read on \<^verbatim>\<open>null\<close>).  When that walk of
  the object data of a valid request is missing, the outcome is the abort
  \<^verbatim>\<open>missing_data_field\<close> with the message "field <field> is missing from data.".
\<close>

theorem indexOn_resolution:
  "indexOn H obj path = spec_resolve H obj (nonblank_segments path)
   \<and> (parseRequest req = Inr r \<and> is_object (data r)
        \<and> spec_walk H (Json (data r)) (nonblank_segments (field (rule r))) = None
      \<longrightarrow> validate H req =
            Inr (aborted (EarlyAbort missing_data_field
                   (''field '' @ field (rule r) @ '' is missing from data.''))))"
  by (auto simp: indexOn_walk validate_object is_container_def is_object_def spec_resolve_def
        split: json.splits)

text \<open>
  Claim C3, an instance: the nested field \<^verbatim>\<open>person.age\<close> on the empty object, from the
  repository's test.
\<close>

theorem indexOn_resolution_witness:
  "parseRequest
     (JObj [(''rule'', JObj [(''field'', JStr ''person.age''), (''condition'', JStr ''eq''),
                             (''condition_value'', JNum 2)]),
            (''data'', JObj [])])
     = Inr \<lparr>data = JObj [],
            rule = \<lparr>field = ''person.age'', condition = eq, condition_value = JNum 2\<rparr>\<rparr>
   \<and> is_object (JObj [])
   \<and> nonblank_segments ''person.age'' = [''person'', ''age'']
   \<and> spec_walk bare_host (Json (JObj [])) [''person'', ''age''] = None
   \<and> validate bare_host
        (JObj [(''rule'', JObj [(''field'', JStr ''person.age''), (''condition'', JStr ''eq''),
                                (''condition_value'', JNum 2)]),
               (''data'', JObj [])])
      = Inr (aborted (EarlyAbort missing_data_field ''field person.age is missing from data.''))"
  using indexOn_resolution
    [of bare_host "JObj []" "''person.age''"
        "JObj [(''rule'', JObj [(''field'', JStr ''person.age''), (''condition'', JStr ''eq''),
                                (''condition_value'', JNum 2)]),
               (''data'', JObj [])]"
        "\<lparr>data = JObj [],
          rule = \<lparr>field = ''person.age'', condition = eq, condition_value = JNum 2\<rparr>\<rparr>"]
  by (simp add: schema_defs is_object_def nonblank_segments_def is_whitespace_def bare_host_def)

text \<open>
  Claim C3 as stated fails on a segment of white space.  The path \<^verbatim>\<open>"a. .b"\<close> has the
  three non-empty segments \<^verbatim>\<open>a\<close>, one space, \<^verbatim>\<open>b\<close>; the object under \<^verbatim>\<open>a\<close> has no key
  of one space, so indexing by each non-empty segment is missing.  The code drops the
  segment of one space, resolves the field to 2 and completes.
\<close>

theorem indexOn_blank_segment_counterexample:
  "spec_segments ''a. .b'' = [''a'', '' '', ''b'']
   \<and> spec_resolve bare_host (JObj [(''a'', JObj [(''b'', JNum 2)])]) (spec_segments ''a. .b'')
       = Undefined
   \<and> indexOn bare_host (JObj [(''a'', JObj [(''b'', JNum 2)])]) ''a. .b'' = Json (JNum 2)
   \<and> validate bare_host
        (JObj [(''rule'', JObj [(''field'', JStr ''a. .b''), (''condition'', JStr ''eq''),
                                (''condition_value'', JNum 2)]),
               (''data'', JObj [(''a'', JObj [(''b'', JNum 2)])])])
      = Inr (completed \<lparr>field = ''a. .b'', condition = eq, condition_value = JNum 2,
               error = False, field_value = Json (JNum 2)\<rparr>)"
  by (simp add: validate_def schema_defs is_container_def indexOn_def spec_segments_def
        spec_resolve_def trim_def is_whitespace_def js_strict_eq_def bare_host_def)

text \<open>
  Claim C5, as amended.  When an input whose rule has a field other than the empty string
  violates several shape rules of section 4.1 at once, the outcome is the abort of the
  first violated rule in the priority order (the rule missing, then its shape and its
  subfields, then the data missing, then the type of the data), and no other is
  reported.  The empty object violates two rules, the rule and the data both being
  absent, and yields \<^verbatim>\<open>missing_required_field\<close> with "rule is required.".
\<close>

theorem first_violation_reported:
  "(2 \<le> length (spec_violations req) \<and> field_not_empty req
      \<longrightarrow> validate H req = Inr (aborted (hd (spec_violations req))))
   \<and> spec_violations (JObj []) =
       [EarlyAbort missing_required_field ''rule is required.'',
        EarlyAbort missing_required_field ''data is required.'']
   \<and> validate H (JObj []) =
       Inr (aborted (EarlyAbort missing_required_field ''rule is required.''))"
proof -
  have "spec_violations (JObj []) =
       [EarlyAbort missing_required_field ''rule is required.'',
        EarlyAbort missing_required_field ''data is required.'']"
    by (simp add: spec_violations_def spec_data_violations_def)
  moreover have "validate H (JObj []) =
       Inr (aborted (EarlyAbort missing_required_field ''rule is required.''))"
    by (simp add: validate_def parseRequest_def validatorSchema_def ruleSchema_def)
  ultimately show ?thesis by (simp add: parse_several_violations validate_aborted)
qed

text \<open>
  Claim C5, an instance: a rule whose field is a number and whose condition is not
  registered, with a key that a rule does not have, and neither condition value nor
  data.  Four rules are violated and the first, on the field, is reported.
\<close>

theorem first_violation_reported_witness:
  "spec_violations
     (JObj [(''rule'', JObj [(''field'', JNum 5), (''condition'', JStr ''lt''),
                             (''extra'', JNum 1)])])
     = [EarlyAbort type_error ''rule.field should be a string'',
        EarlyAbort type_error ''rule.condition must be one of eq, neq, gt, gte, or contains'',
        EarlyAbort missing_required_field ''rule.condition_value is required'',
        EarlyAbort missing_required_field ''data is required.'']
   \<and> field_not_empty
        (JObj [(''rule'', JObj [(''field'', JNum 5), (''condition'', JStr ''lt''),
                                (''extra'', JNum 1)])])
   \<and> validate bare_host
        (JObj [(''rule'', JObj [(''field'', JNum 5), (''condition'', JStr ''lt''),
                                (''extra'', JNum 1)])])
      = Inr (aborted (EarlyAbort type_error ''rule.field should be a string''))"
  using first_violation_reported
    [of "JObj [(''rule'', JObj [(''field'', JNum 5), (''condition'', JStr ''lt''),
                                (''extra'', JNum 1)])]" bare_host]
  by (simp add: spec_violations_def spec_rule_violations_def spec_data_violations_def
        registered_def field_not_empty_def)

text \<open>
  Claim C5 as stated fails when the field of the rule is the empty string.  This input
  violates two shape rules of section 4.1 at once, the one on the condition and the one
  on the presence of the data; the outcome is neither: the schema rejects the empty
  field first, with a message of the validation library.
\<close>

theorem first_violation_counterexample:
  "spec_violations
     (JObj [(''rule'', JObj [(''field'', JStr []), (''condition'', JStr ''lt''),
                             (''condition_value'', JNum 1)])])
     = [EarlyAbort type_error ''rule.condition must be one of eq, neq, gt, gte, or contains'',
        EarlyAbort missing_required_field ''data is required.'']
   \<and> validate bare_host
        (JObj [(''rule'', JObj [(''field'', JStr []), (''condition'', JStr ''lt''),
                                (''condition_value'', JNum 1)])])
      = Inr (aborted (EarlyAbort type_error
               ([CHR 0x22] @ ''rule.field'' @ [CHR 0x22] @ '' is not allowed to be empty'')))"
  by (simp add: validate_def schema_defs spec_violations_def spec_rule_violations_def
        spec_data_violations_def registered_def)

text \<open>
  Claim C9.  For every valid request whose data is a string or an array, the outcome is
  never the abort \<^verbatim>\<open>missing_data_field\<close>, and it does not depend on \<^verbatim>\<open>rule.field\<close>: a
  second valid request that differs from the first only in \<^verbatim>\<open>rule.field\<close> has the same
  outcome but for the field string it echoes (the same error flag, field value, condition
  and condition value, or an exception in both).
\<close>

theorem container_field_independent:
  assumes "parseRequest req = Inr r"
      and "parseRequest req' = Inr (r\<lparr>rule := (rule r)\<lparr>field := f\<rparr>\<rparr>)"
      and "is_container (data r)"
  shows "(\<forall>m. validate H req \<noteq> Inr (aborted (EarlyAbort missing_data_field m)))
       \<and> forget_field (validate H req') = forget_field (validate H req)"
  using assms
  by (simp add: validate_container forget_field_def split: sum.splits)

text \<open>
  Claim C9, an instance: the string \<^verbatim>\<open>"damien-marley"\<close> under the condition \<^verbatim>\<open>eq\<close>, with
  the field \<^verbatim>\<open>"0"\<close> and with the field \<^verbatim>\<open>"x"\<close>.
\<close>

theorem container_field_independent_witness:
  "parseRequest
     (JObj [(''rule'', JObj [(''field'', JStr ''0''), (''condition'', JStr ''eq''),
                             (''condition_value'', JStr ''a'')]),
            (''data'', JStr ''damien-marley'')])
     = Inr \<lparr>data = JStr ''damien-marley'',
            rule = \<lparr>field = ''0'', condition = eq, condition_value = JStr ''a''\<rparr>\<rparr>
   \<and> parseRequest
       (JObj [(''rule'', JObj [(''field'', JStr ''x''), (''condition'', JStr ''eq''),
                               (''condition_value'', JStr ''a'')]),
              (''data'', JStr ''damien-marley'')])
     = Inr \<lparr>data = JStr ''damien-marley'',
            rule = \<lparr>field = ''x'', condition = eq, condition_value = JStr ''a''\<rparr>\<rparr>
   \<and> is_container (JStr ''damien-marley'')
   \<and> (\<forall>m. validate bare_host
              (JObj [(''rule'', JObj [(''field'', JStr ''0''), (''condition'', JStr ''eq''),
                                      (''condition_value'', JStr ''a'')]),
                     (''data'', JStr ''damien-marley'')])
            \<noteq> Inr (aborted (EarlyAbort missing_data_field m)))
   \<and> forget_field (validate bare_host
        (JObj [(''rule'', JObj [(''field'', JStr ''x''), (''condition'', JStr ''eq''),
                                (''condition_value'', JStr ''a'')]),
               (''data'', JStr ''damien-marley'')]))
     = forget_field (validate bare_host
        (JObj [(''rule'', JObj [(''field'', JStr ''0''), (''condition'', JStr ''eq''),
                                (''condition_value'', JStr ''a'')]),
               (''data'', JStr ''damien-marley'')]))"
  using container_field_independent
    [of "JObj [(''rule'', JObj [(''field'', JStr ''0''), (''condition'', JStr ''eq''),
                                (''condition_value'', JStr ''a'')]),
               (''data'', JStr ''damien-marley'')]"
        "\<lparr>data = JStr ''damien-marley'',
          rule = \<lparr>field = ''0'', condition = eq, condition_value = JStr ''a''\<rparr>\<rparr>"
        "JObj [(''rule'', JObj [(''field'', JStr ''x''), (''condition'', JStr ''eq''),
                                (''condition_value'', JStr ''a'')]),
               (''data'', JStr ''damien-marley'')]"
        "''x''" bare_host]
  by (simp add: schema_defs is_container_def)




end
